theory Spec2Isabelle
  imports Main
begin

section \<open>Values of the host language\<close>

text \<open>
  The factory of \<^verbatim>\<open>src/index.js\<close> is untyped: any value may be passed as a name, as
  metadata or as a cause. The values modelled here are the primitives (numbers are
  integers), plain objects, arrays, \<^verbatim>\<open>Error\<close> objects, the built-in members that objects
  and arrays inherit, the instances the factory's types produce, and foreign objects.
  Plain objects are mutable and live in a store, addressed by \<open>Ref\<close>; arrays, \<^verbatim>\<open>Error\<close>
  objects and instances are immutable trees, and \<^verbatim>\<open>===\<close> on them is equality of trees.
  Properties of plain objects, of arrays and of \<^verbatim>\<open>Error\<close> objects are data properties that
  hold primitives. A foreign object (\<open>Foreign\<close>, or \<open>ForeignError\<close> when it inherits from
  \<^verbatim>\<open>Error.prototype\<close>) is one whose properties may be accessors and whose \<^verbatim>\<open>toJSON\<close> may
  be a function: reading it or calling it runs code that is not the program's.
\<close>

datatype prim = PUndefined | PNull | PBool bool | PNum int | PStr string

text \<open>
  A \<open>variant\<close> is the function object \<^verbatim>\<open>SmartError\<close> that one call of \<^verbatim>\<open>create\<close>
  returns (lines 43-160), after the loop of lines 148-158 has run:
  \<open>vid\<close> is the identity of the function object, \<open>vname\<close> and \<open>errors\<close> are the two
  closure variables (\<open>errors\<close> is the table: a plain object by its address, or an
  array), \<open>statics\<close> lists the
  codes whose creator \<^verbatim>\<open>SmartError[err]\<close> is installed, \<open>super_ok\<close> tells that
  \<^verbatim>\<open>SmartError.super_\<close> is still \<^verbatim>\<open>Error\<close>, \<open>accessors\<close> tells that
  \<^verbatim>\<open>SmartError.prototype\<close> is still the object populated by lines 58-145, and \<open>preds\<close>
  lists the codes \<open>err\<close> whose getter \<^verbatim>\<open>is${err}\<close> is defined on \<^verbatim>\<open>SmartError.prototype\<close>.
\<close>

datatype table = TObj nat | TArr "prim list"

record variant =
  vid :: nat
  vname :: string
  errors :: table
  statics :: "string list"
  super_ok :: bool
  accessors :: bool
  preds :: "string list"

text \<open>
  An instance holds its type and the four fields of \<^verbatim>\<open>this._props\<close> (lines 51-56):
  code, metadata, cause and the captured stack.
\<close>

datatype jsval =
    Prim prim
  | Ref nat
  | Array "prim list"
  | ErrorObj "(string \<times> prim) list"
  | Builtin string
  | Instance variant string jsval jsval string
  | Foreign nat
  | ForeignError nat

abbreviation Undefined :: jsval where "Undefined \<equiv> Prim PUndefined"
abbreviation Null :: jsval where "Null \<equiv> Prim PNull"
abbreviation Bool :: "bool \<Rightarrow> jsval" where "Bool b \<equiv> Prim (PBool b)"
abbreviation Num :: "int \<Rightarrow> jsval" where "Num n \<equiv> Prim (PNum n)"
abbreviation Str :: "string \<Rightarrow> jsval" where "Str s \<equiv> Prim (PStr s)"

text \<open>What a call throws: an error of the engine, or any value that foreign code throws.\<close>

datatype error = TypeError string | RangeError string | Thrown jsval

text \<open>
  The store holds the current properties of every plain object, in the order
  \<^verbatim>\<open>Object.keys\<close> lists them. Foreign code is a function of the store: it returns or throws,
  and leaves a store; whatever state it keeps, it keeps in plain objects.
\<close>

type_synonym store = "nat \<Rightarrow> (string \<times> prim) list"

type_synonym behaviour = "store \<Rightarrow> (error + jsval) \<times> store"

text \<open>
  The world: the store, the identity the next function object will get, and the
  foreign objects. For the foreign object at address \<open>a\<close>, \<open>foreign_get w a k\<close> is what a
  read of its property \<open>k\<close> runs (a data property is code that returns its value and
  changes nothing), \<open>foreign_toJSON w a\<close> is what the call \<^verbatim>\<open>toJSON('cause')\<close> on it runs,
  if its \<^verbatim>\<open>toJSON\<close> is a function, and \<open>foreign_string w a\<close> is its conversion to a
  string, which is taken to change nothing.
\<close>

record world =
  store :: store
  next_vid :: nat
  foreign_get :: "nat \<Rightarrow> string \<Rightarrow> behaviour"
  foreign_toJSON :: "nat \<Rightarrow> behaviour option"
  foreign_string :: "nat \<Rightarrow> error + string"

text \<open>
  The names every plain object inherits from \<^verbatim>\<open>Object.prototype\<close>; \<open>Builtin k\<close> is the
  member of that name. An array inherits them too, behind the members of
  \<^verbatim>\<open>Array.prototype\<close> (those of ECMAScript 2023); \<open>Builtin (''Array.prototype.'' @ k)\<close> is
  the member of \<^verbatim>\<open>Array.prototype\<close> of name \<open>k\<close>.
\<close>

definition object_prototype_names :: "string list" where
  "object_prototype_names =
     [''constructor'', ''__defineGetter__'', ''__defineSetter__'', ''hasOwnProperty'',
      ''__lookupGetter__'', ''__lookupSetter__'', ''isPrototypeOf'', ''propertyIsEnumerable'',
      ''toString'', ''valueOf'', ''__proto__'', ''toLocaleString'']"

definition array_prototype_names :: "string list" where
  "array_prototype_names =
     [''at'', ''concat'', ''constructor'', ''copyWithin'', ''entries'', ''every'', ''fill'',
      ''filter'', ''find'', ''findIndex'', ''findLast'', ''findLastIndex'', ''flat'', ''flatMap'',
      ''forEach'', ''includes'', ''indexOf'', ''join'', ''keys'', ''lastIndexOf'', ''map'', ''pop'',
      ''push'', ''reduce'', ''reduceRight'', ''reverse'', ''shift'', ''slice'', ''some'', ''sort'',
      ''splice'', ''toLocaleString'', ''toReversed'', ''toSorted'', ''toSpliced'', ''toString'',
      ''unshift'', ''values'', ''with'']"

text \<open>\<^verbatim>\<open>typeof value\<close>.\<close>

fun typeof_prim :: "prim \<Rightarrow> string" where
  "typeof_prim PUndefined = ''undefined''"
| "typeof_prim PNull = ''object''"
| "typeof_prim (PBool b) = ''boolean''"
| "typeof_prim (PNum n) = ''number''"
| "typeof_prim (PStr s) = ''string''"

fun typeof :: "jsval \<Rightarrow> string" where
  "typeof (Prim p) = typeof_prim p"
| "typeof (Ref a) = ''object''"
| "typeof (Array xs) = ''object''"
| "typeof (ErrorObj ps) = ''object''"
| "typeof (Builtin k) = (if k = ''__proto__'' then ''object'' else ''function'')"
| "typeof (Instance T c m ca st) = ''object''"
| "typeof (Foreign a) = ''object''"
| "typeof (ForeignError a) = ''object''"

text \<open>Truthiness, as the \<^verbatim>\<open>if\<close> of line 114 tests it.\<close>

fun truthy :: "jsval \<Rightarrow> bool" where
  "truthy (Prim PUndefined) = False"
| "truthy (Prim PNull) = False"
| "truthy (Prim (PBool b)) = b"
| "truthy (Prim (PNum n)) = (n \<noteq> 0)"
| "truthy (Prim (PStr s)) = (s \<noteq> [])"
| "truthy v = True"

text \<open>\<^verbatim>\<open>value != null\<close> (lines 109 and 113): false for \<^verbatim>\<open>null\<close> and \<^verbatim>\<open>undefined\<close> only.\<close>

fun not_nullish :: "jsval \<Rightarrow> bool" where
  "not_nullish (Prim PUndefined) = False"
| "not_nullish (Prim PNull) = False"
| "not_nullish v = True"

text \<open>
  \<^verbatim>\<open>value instanceof Error\<close> (lines 44 and 116). An instance inherits from
  \<^verbatim>\<open>Error.prototype\<close> through the prototype that \<^verbatim>\<open>inherits\<close> (line 58) set up, so only
  while that prototype is still its type's.
\<close>

fun instanceof_Error :: "jsval \<Rightarrow> bool" where
  "instanceof_Error (ErrorObj ps) = True"
| "instanceof_Error (ForeignError a) = True"
| "instanceof_Error (Instance T c m ca st) = accessors T"
| "instanceof_Error v = False"

text \<open>
  \<^verbatim>\<open>value instanceof T\<close> for a type \<open>T\<close> of the factory: the prototype of an instance is
  the prototype of the function object that constructed it.
\<close>

fun instanceof :: "jsval \<Rightarrow> variant \<Rightarrow> bool" where
  "instanceof (Instance T' c m ca st) T = (vid T' = vid T)"
| "instanceof v T = False"


section \<open>Conversion to strings\<close>

text \<open>
  The template literals of lines 20 and 136 convert a value to a string. A number
  is written in decimal.
\<close>

definition digit_char :: "nat \<Rightarrow> char" where
  "digit_char n = ''0123456789'' ! (n mod 10)"

fun show_nat :: "nat \<Rightarrow> string" where
  "show_nat n = (if n < 10 then [digit_char n]
                 else show_nat (n div 10) @ [digit_char (n mod 10)])"

declare show_nat.simps [simp del]

definition show_int :: "int \<Rightarrow> string" where
  "show_int i = (if i < 0 then ''-'' @ show_nat (nat (- i)) else show_nat (nat i))"

fun prim_to_string :: "prim \<Rightarrow> string" where
  "prim_to_string PUndefined = ''undefined''"
| "prim_to_string PNull = ''null''"
| "prim_to_string (PBool b) = (if b then ''true'' else ''false'')"
| "prim_to_string (PNum n) = show_int n"
| "prim_to_string (PStr s) = s"

text \<open>\<^verbatim>\<open>Array.prototype.join\<close> with a comma: \<^verbatim>\<open>null\<close> and \<^verbatim>\<open>undefined\<close> give the empty string.\<close>

fun join_elem :: "prim \<Rightarrow> string" where
  "join_elem PUndefined = []"
| "join_elem PNull = []"
| "join_elem p = prim_to_string p"

fun join :: "prim list \<Rightarrow> string" where
  "join [] = []"
| "join [x] = join_elem x"
| "join (x # y # ys) = join_elem x @ '','' @ join (y # ys)"

text \<open>The text of a built-in member, as V8 prints a native function.\<close>

definition builtin_name :: "string \<Rightarrow> string" where
  "builtin_name k =
     (if k = ''constructor'' then ''Object''
      else if k = ''Array.prototype.constructor'' then ''Array''
      else if take 16 k = ''Array.prototype.'' then drop 16 k
      else k)"

definition builtin_to_string :: "string \<Rightarrow> string" where
  "builtin_to_string k =
     (if k = ''__proto__'' then ''[object Object]''
      else ''function '' @ builtin_name k @ ''() { [native code] }'')"

text \<open>
  \<^verbatim>\<open>errors[code]\<close> on the table at address \<open>a\<close>: an own property, else a member
  inherited from \<^verbatim>\<open>Object.prototype\<close>, else \<^verbatim>\<open>undefined\<close>.
\<close>

definition table_get :: "world \<Rightarrow> nat \<Rightarrow> string \<Rightarrow> jsval" where
  "table_get w a k =
     (case map_of (store w a) k of
        Some p \<Rightarrow> Prim p
      | None \<Rightarrow> if k \<in> set object_prototype_names then Builtin k else Undefined)"

text \<open>
  \<^verbatim>\<open>errors[code]\<close> on a table that is an array: its length, an element by its index
  written in decimal, else an inherited member, else \<^verbatim>\<open>undefined\<close>.
\<close>

definition array_get :: "prim list \<Rightarrow> string \<Rightarrow> jsval" where
  "array_get xs k =
     (if k = ''length'' then Num (int (length xs))
      else case find (\<lambda>i. show_nat i = k) [0..<length xs] of
        Some i \<Rightarrow> Prim (xs ! i)
      | None \<Rightarrow> if k \<in> set array_prototype_names then Builtin (''Array.prototype.'' @ k)
                else if k \<in> set object_prototype_names then Builtin k
                else Undefined)"

text \<open>\<^verbatim>\<open>errors[code]\<close>, line 75.\<close>

fun table_lookup :: "world \<Rightarrow> table \<Rightarrow> string \<Rightarrow> jsval" where
  "table_lookup w (TObj a) k = table_get w a k"
| "table_lookup w (TArr xs) k = array_get xs k"

text \<open>
  \<^verbatim>\<open>Error.prototype.toString\<close>: the own or inherited \<^verbatim>\<open>name\<close> and \<^verbatim>\<open>message\<close>, joined by
  a colon when neither is empty.
\<close>

definition error_to_string :: "(string \<times> prim) list \<Rightarrow> string" where
  "error_to_string ps =
     (let name = (case map_of ps ''name'' of None \<Rightarrow> ''Error'' | Some PUndefined \<Rightarrow> ''Error''
                   | Some p \<Rightarrow> prim_to_string p);
          msg = (case map_of ps ''message'' of None \<Rightarrow> [] | Some PUndefined \<Rightarrow> []
                   | Some p \<Rightarrow> prim_to_string p)
      in if name = [] then msg else if msg = [] then name else name @ '': '' @ msg)"

text \<open>
  The string conversion of a value. A plain object or an \<^verbatim>\<open>Error\<close> object with an own
  property \<^verbatim>\<open>toString\<close> (a primitive, so not callable) has no primitive value. An instance is converted
  by \<^verbatim>\<open>SmartError.prototype.toString\<close> (lines 135-137) while its prototype still has it.
\<close>

definition cannot_convert :: error where
  "cannot_convert = TypeError ''Cannot convert object to primitive value''"

fun to_string :: "world \<Rightarrow> jsval \<Rightarrow> error + string" where
  "to_string w (Prim p) = Inr (prim_to_string p)"
| "to_string w (Ref a) =
     (if ''toString'' \<in> fst ` set (store w a) then Inl cannot_convert
      else Inr ''[object Object]'')"
| "to_string w (Array xs) = Inr (join xs)"
| "to_string w (ErrorObj ps) =
     (if ''toString'' \<in> fst ` set ps then Inl cannot_convert
      else Inr (error_to_string ps))"
| "to_string w (Builtin k) = Inr (builtin_to_string k)"
| "to_string w (Foreign a) = foreign_string w a"
| "to_string w (ForeignError a) = foreign_string w a"
| "to_string w (Instance T c m ca st) =
     (if accessors T then
        (case table_lookup w (errors T) c of
           Prim p \<Rightarrow> Inr (vname T @ '': '' @ prim_to_string p)
         | Builtin k \<Rightarrow> Inr (vname T @ '': '' @ builtin_to_string k)
         | _ \<Rightarrow> Inl cannot_convert)
      else Inl (TypeError ''Function.prototype.toString requires that this be a Function''))"

section \<open>The factory\<close>

text \<open>The double quote that line 20 puts around the value.\<close>

definition dquote :: string where
  "dquote = [CHR 0x22]"

text \<open>\<^verbatim>\<open>assert\<close>, lines 17-23.\<close>

definition assert :: "world \<Rightarrow> string \<Rightarrow> jsval \<Rightarrow> string \<Rightarrow> error + unit" where
  "assert w name val type =
     (let typeOfValue = typeof val in
      if typeOfValue \<noteq> type then
        (case to_string w val of
           Inl e \<Rightarrow> Inl e
         | Inr s \<Rightarrow> Inl (TypeError (name @ '': expected '' @ type @ ''; got '' @ typeOfValue
                                      @ '': '' @ dquote @ s @ dquote)))
      else Inr ())"


text \<open>
  The second argument of \<^verbatim>\<open>create\<close> is taken to be a primitive (a missing argument
  is \<^verbatim>\<open>undefined\<close>), a plain object (the table of codes and messages) or an array.
\<close>

datatype codes_arg = CPrim prim | CRef nat | CArray "prim list"

fun codes_val :: "codes_arg \<Rightarrow> jsval" where
  "codes_val (CPrim p) = Prim p"
| "codes_val (CRef a) = Ref a"
| "codes_val (CArray xs) = Array xs"

fun str_of :: "jsval \<Rightarrow> string" where
  "str_of (Prim (PStr s)) = s"
| "str_of v = []"

text \<open>
  Own properties that Node gives the function object \<^verbatim>\<open>SmartError\<close> and that are not
  writable: the assignment of line 149 to one of them does nothing (the module is
  not in strict mode).
\<close>

definition readonly_statics :: "string list" where
  "readonly_statics = [''name'', ''length'', ''arguments'', ''caller'']"

text \<open>
  One round of the loop of lines 148-158, for the key \<open>err\<close>. Line 149 installs the
  creator as \<^verbatim>\<open>SmartError[err]\<close>; for \<^verbatim>\<open>prototype\<close> that replaces the prototype object by
  the creator, a function without any of the accessors, and for \<^verbatim>\<open>super_\<close> it replaces
  the parent constructor that line 49 calls. Line 153 then defines \<^verbatim>\<open>is${err}\<close> on the
  current prototype, which throws when that property is already there: the
  properties are not configurable, and \<^verbatim>\<open>isSmartError\<close> is one of them (line 92).
\<close>

definition assign_static :: "string \<Rightarrow> variant \<Rightarrow> variant" where
  "assign_static err T =
     (if err \<in> set readonly_statics then T
      else if err = ''prototype'' then
        T\<lparr>statics := statics T @ [err], accessors := False, preds := []\<rparr>
      else if err = ''super_'' then
        T\<lparr>statics := statics T @ [err], super_ok := False\<rparr>
      else T\<lparr>statics := statics T @ [err]\<rparr>)"

definition define_pred :: "string \<Rightarrow> variant \<Rightarrow> error + variant" where
  "define_pred err T =
     (if err \<in> set (preds T) \<or> (accessors T \<and> err = ''SmartError'')
      then Inl (TypeError (''Cannot redefine property: is'' @ err))
      else Inr (T\<lparr>preds := preds T @ [err]\<rparr>))"

definition attach :: "string \<Rightarrow> variant \<Rightarrow> error + variant" where
  "attach err T = define_pred err (assign_static err T)"

fun attach_all :: "string list \<Rightarrow> variant \<Rightarrow> error + variant" where
  "attach_all [] T = Inr T"
| "attach_all (err # errs) T =
     (case attach err T of Inl e \<Rightarrow> Inl e | Inr T' \<Rightarrow> attach_all errs T')"

text \<open>
  \<^verbatim>\<open>create\<close>, lines 32-161. The two assertions come first; \<^verbatim>\<open>Object.keys\<close> (line 148)
  throws on \<^verbatim>\<open>null\<close>, the one primitive that passes the second assertion. Every call
  that returns makes a new function object; a call that throws leaves nothing behind
  that can be reached, and the world as it was.
\<close>

definition new_variant :: "world \<Rightarrow> string \<Rightarrow> table \<Rightarrow> variant" where
  "new_variant w name t =
     \<lparr>vid = next_vid w, vname = name, errors = t, statics = [],
      super_ok = True, accessors = True, preds = []\<rparr>"

text \<open>\<^verbatim>\<open>Object.keys(errors)\<close>, line 148: the keys of an array are its indices.\<close>

fun table_keys :: "world \<Rightarrow> table \<Rightarrow> string list" where
  "table_keys w (TObj a) = map fst (store w a)"
| "table_keys w (TArr xs) = map show_nat [0..<length xs]"

definition build :: "world \<Rightarrow> string \<Rightarrow> table \<Rightarrow> (error + variant) \<times> world" where
  "build w name t =
     (case attach_all (table_keys w t) (new_variant w name t) of
        Inl e \<Rightarrow> (Inl e, w)
      | Inr T \<Rightarrow> (Inr T, w\<lparr>next_vid := Suc (next_vid w)\<rparr>))"

definition create :: "world \<Rightarrow> jsval \<Rightarrow> codes_arg \<Rightarrow> (error + variant) \<times> world" where
  "create w name errs =
     (case assert w ''name'' name ''string'' of
        Inl e \<Rightarrow> (Inl e, w)
      | Inr _ \<Rightarrow>
        (case assert w ''errors'' (codes_val errs) ''object'' of
           Inl e \<Rightarrow> (Inl e, w)
         | Inr _ \<Rightarrow>
           (case errs of
              CPrim p \<Rightarrow> (Inl (TypeError ''Cannot convert undefined or null to object''), w)
            | CRef a \<Rightarrow> build w (str_of name) (TObj a)
            | CArray xs \<Rightarrow> build w (str_of name) (TArr xs))))"

section \<open>The produced type\<close>

text \<open>
  The constructor, lines 43-57, called with \<^verbatim>\<open>new\<close>; \<open>trace\<close> is the stack that
  \<^verbatim>\<open>Error.captureStackTrace\<close> captures. When a code named \<^verbatim>\<open>super_\<close> has replaced the
  parent constructor by its creator, line 49 calls that creator, which constructs
  again, without end: the call stack overflows.
\<close>

definition construct :: "variant \<Rightarrow> string \<Rightarrow> jsval \<Rightarrow> jsval \<Rightarrow> string \<Rightarrow> error + jsval" where
  "construct T code metadata cause trace =
     (let (metadata', cause') =
            (if instanceof_Error metadata then (Undefined, metadata) else (metadata, cause))
      in if super_ok T then Inr (Instance T code metadata' cause' trace)
         else Inl (RangeError ''Maximum call stack size exceeded''))"

text \<open>
  The call \<^verbatim>\<open>T[K](metadata, cause)\<close> for a code \<open>K\<close> of the table (lines 149-151).
  Where line 149 could not install the creator, \<^verbatim>\<open>T[K]\<close> is not a function; the
  errors that the engine itself throws carry V8's wording.
\<close>

definition creator :: "variant \<Rightarrow> string \<Rightarrow> jsval \<Rightarrow> jsval \<Rightarrow> string \<Rightarrow> error + jsval" where
  "creator T K metadata cause trace =
     (if K \<in> set (statics T) then construct T K metadata cause trace
      else Inl (TypeError (''SmartError.'' @ K @ '' is not a function'')))"


text \<open>
  Reading a property, \<^verbatim>\<open>v[k]\<close>. On an instance \<open>k\<close> ranges over the accessors of lines
  61-97 and the predicates \<^verbatim>\<open>is${err}\<close> of line 153; they are defined on the prototype,
  and \<^verbatim>\<open>message\<close> looks the code up in the table at the time of the read (line 75).
  An instance whose prototype a code named \<^verbatim>\<open>prototype\<close> has replaced finds only what
  was defined on the replacement, a function without a name. On every other value
  \<open>k\<close> ranges over what line 114-120 read of a cause: \<^verbatim>\<open>isSmartError\<close>, \<^verbatim>\<open>toJSON\<close>,
  \<^verbatim>\<open>code\<close>, \<^verbatim>\<open>message\<close> and \<^verbatim>\<open>stack\<close>, none of which a primitive, an array or a function
  has; \<^verbatim>\<open>Error.prototype\<close> gives an \<^verbatim>\<open>Error\<close> object without own message the empty one.
  The one inherited property whose name has the form \<^verbatim>\<open>is${err}\<close> is
  \<^verbatim>\<open>Object.prototype.isPrototypeOf\<close>. The properties of a foreign object are not read
  here but by \<open>read_prop\<close> below, since reading them runs code.
\<close>

definition pred_prop :: "variant \<Rightarrow> string \<Rightarrow> string \<Rightarrow> jsval" where
  "pred_prop T c k =
     (if take 2 k = ''is'' \<and> drop 2 k \<in> set (preds T) then Bool (c = drop 2 k)
      else if k = ''isPrototypeOf'' then Builtin k
      else Undefined)"

fun get_prop :: "world \<Rightarrow> jsval \<Rightarrow> string \<Rightarrow> jsval" where
  "get_prop w (Instance T c m ca st) k =
     (if accessors T then
        (if k = ''name'' then Str (vname T)
         else if k = ''code'' then Str c
         else if k = ''message'' then table_lookup w (errors T) c
         else if k = ''metadata'' then m
         else if k = ''cause'' then ca
         else if k = ''stack'' then Str st
         else if k = ''isSmartError'' then Bool True
         else pred_prop T c k)
      else if k = ''name'' then Str []
      else pred_prop T c k)"
| "get_prop w (Ref a) k = table_get w a k"
| "get_prop w (ErrorObj ps) k =
     (case map_of ps k of
        Some p \<Rightarrow> Prim p
      | None \<Rightarrow> if k = ''message'' then Str [] else Undefined)"
| "get_prop w v k = Undefined"

section \<open>Serialization\<close>

text \<open>
  A result of \<^verbatim>\<open>toJSON\<close> is a new object with its properties in the order of their
  assignment (\<open>Props\<close>), or a value embedded as it is (\<open>Val\<close>).
\<close>

datatype jsout = Val jsval | Props "(string \<times> jsout) list"

text \<open>
  Running foreign code in a world, and reading a property of a cause (lines 114 and
  118-120): on a foreign object the read runs the code of the property, on every
  other value it changes nothing.
\<close>

definition run :: "world \<Rightarrow> behaviour \<Rightarrow> (error + jsval) \<times> world" where
  "run w b = (case b (store w) of (r, s') \<Rightarrow> (r, w\<lparr>store := s'\<rparr>))"

fun read_prop :: "world \<Rightarrow> jsval \<Rightarrow> string \<Rightarrow> (error + jsval) \<times> world" where
  "read_prop w (Foreign a) k = run w (foreign_get w a k)"
| "read_prop w (ForeignError a) k = run w (foreign_get w a k)"
| "read_prop w v k = (Inr (get_prop w v k), w)"

text \<open>Lines 117-121: the code, the message and the stack of a cause, read in this order.\<close>

definition error_summary :: "world \<Rightarrow> jsval \<Rightarrow> (error + jsout) \<times> world" where
  "error_summary w ca =
     (case read_prop w ca ''code'' of
        (Inl e, w1) \<Rightarrow> (Inl e, w1)
      | (Inr vc, w1) \<Rightarrow>
        (case read_prop w1 ca ''message'' of
           (Inl e, w2) \<Rightarrow> (Inl e, w2)
         | (Inr vm, w2) \<Rightarrow>
           (case read_prop w2 ca ''stack'' of
              (Inl e, w3) \<Rightarrow> (Inl e, w3)
            | (Inr vs, w3) \<Rightarrow>
                (Inr (Props [(''code'', Val vc), (''message'', Val vm), (''stack'', Val vs)]),
                 w3))))"

text \<open>
  The call \<^verbatim>\<open>cause.toJSON('cause')\<close> of line 115 on a foreign object: it runs the
  object's \<^verbatim>\<open>toJSON\<close> and embeds what that returns, and is a \<^verbatim>\<open>TypeError\<close> when the object
  has no function of that name.
\<close>

definition not_a_function :: error where
  "not_a_function = TypeError ''cause.toJSON is not a function''"

definition call_foreign :: "world \<Rightarrow> nat \<Rightarrow> (error + jsout) \<times> world" where
  "call_foreign w a =
     (case foreign_toJSON w a of
        None \<Rightarrow> (Inl not_a_function, w)
      | Some b \<Rightarrow>
        (case run w b of
           (Inl e, w') \<Rightarrow> (Inl e, w')
         | (Inr v, w') \<Rightarrow> (Inr (Val v), w')))"

text \<open>
  The method call \<^verbatim>\<open>v.toJSON(key)\<close>, lines 105-129, in state-passing form: it returns
  its outcome and the world as the call leaves it. An instance that still has the
  prototype of its type has the method of lines 105-129, a foreign object has its
  own; on every other value of the model the property is missing or a primitive,
  and the call is a \<^verbatim>\<open>TypeError\<close> (whose text names the callee as line 115 does).
\<close>

fun toJSON_call :: "world \<Rightarrow> jsval \<Rightarrow> (error + jsout) \<times> world" where
  "toJSON_call w (Instance T c m ca st) =
     (if accessors T then
        (let result = [(''name'', Val (Str (vname T))), (''code'', Val (Str c))];
             result = (if not_nullish m then result @ [(''metadata'', Val m)] else result)
         in if not_nullish ca then
              (case read_prop w ca ''isSmartError'' of
                 (Inl e, w1) \<Rightarrow> (Inl e, w1)
               | (Inr flag, w1) \<Rightarrow>
                   if truthy flag then
                     (case toJSON_call w1 ca of
                        (Inl e, w2) \<Rightarrow> (Inl e, w2)
                      | (Inr j, w2) \<Rightarrow>
                          (Inr (Props (result @ [(''cause'', j), (''stack'', Val (Str st))])), w2))
                   else if instanceof_Error ca then
                     (case error_summary w1 ca of
                        (Inl e, w2) \<Rightarrow> (Inl e, w2)
                      | (Inr j, w2) \<Rightarrow>
                          (Inr (Props (result @ [(''cause'', j), (''stack'', Val (Str st))])), w2))
                   else (Inr (Props (result @ [(''cause'', Val ca), (''stack'', Val (Str st))])),
                         w1))
            else (Inr (Props (result @ [(''stack'', Val (Str st))])), w))
      else (Inl not_a_function, w))"
| "toJSON_call w (Foreign a) = call_foreign w a"
| "toJSON_call w (ForeignError a) = call_foreign w a"
| "toJSON_call w v = (Inl not_a_function, w)"

text \<open>The outcome of \<^verbatim>\<open>v.toJSON()\<close> alone.\<close>

definition toJSON :: "world \<Rightarrow> jsval \<Rightarrow> error + jsout" where
  "toJSON w v = fst (toJSON_call w v)"

text \<open>
  The cause at the end of the chain of causes of a value, and a foreign object
  whose properties and whose \<^verbatim>\<open>toJSON\<close> change nothing when they are run.
\<close>

fun last_cause :: "jsval \<Rightarrow> jsval" where
  "last_cause (Instance T c m ca st) = last_cause ca"
| "last_cause v = v"

definition quiet :: "world \<Rightarrow> nat \<Rightarrow> bool" where
  "quiet w a \<longleftrightarrow>
     (\<forall>k s. snd (foreign_get w a k s) = s)
     \<and> (\<forall>b s. foreign_toJSON w a = Some b \<longrightarrow> snd (b s) = s)"

section \<open>Example worlds\<close>

text \<open>
  The table of \<^verbatim>\<open>src/spec/index.spec.js\<close> (lines 13-16) at address 0, and six more
  plain objects; every other address holds an empty object \<^verbatim>\<open>{}\<close>.
\<close>

definition test_errors :: "(string \<times> prim) list" where
  "test_errors = [(''Unexpected'', PStr ''An unexpected error has occurred.''),
                  (''TimedOut'', PStr ''The operation timed out.'')]"

definition example_store :: "nat \<Rightarrow> (string \<times> prim) list" where
  "example_store a =
     (if a = 0 then test_errors
      else if a = 1 then [(''A'', PStr ''a''), (''prototype'', PStr ''p'')]
      else if a = 2 then [(''super_'', PStr ''s'')]
      else if a = 3 then [(''name'', PStr ''n'')]
      else if a = 4 then [(''isSmartError'', PBool True)]
      else if a = 5 then [(''A'', PStr ''a'')]
      else if a = 9 then [(''prototype'', PStr ''p''), (''A'', PStr ''a''), (''B'', PStr ''b'')]
      else [])"

text \<open>
  Its foreign objects have no property and no \<^verbatim>\<open>toJSON\<close>, and convert to
  \<^verbatim>\<open>[object Object]\<close>.
\<close>

definition example_world :: world where
  "example_world = \<lparr>store = example_store, next_vid = 0,
     foreign_get = (\<lambda>a k s. (Inr Undefined, s)),
     foreign_toJSON = (\<lambda>a. None),
     foreign_string = (\<lambda>a. Inr ''[object Object]'')\<rparr>"

text \<open>
  A world whose foreign objects say that they are smart errors and whose \<^verbatim>\<open>toJSON\<close>
  counts its calls: it returns the number of properties of the plain object at
  address 8 and adds one property to it.
\<close>

definition counting :: behaviour where
  "counting s = (Inr (Num (int (length (s 8)))),
                 s(8 := s 8 @ [(show_nat (length (s 8)), PNull)]))"

definition counting_world :: world where
  "counting_world = \<lparr>store = example_store, next_vid = 0,
     foreign_get = (\<lambda>a k s. (Inr (if k = ''isSmartError'' then Bool True else Undefined), s)),
     foreign_toJSON = (\<lambda>a. Some counting),
     foreign_string = (\<lambda>a. Inr ''[object Object]'')\<rparr>"

text \<open>The same world with a \<^verbatim>\<open>toJSON\<close> that returns a string and changes nothing.\<close>

definition quiet_world :: world where
  "quiet_world = \<lparr>store = example_store, next_vid = 0,
     foreign_get = (\<lambda>a k s. (Inr (if k = ''isSmartError'' then Bool True else Undefined), s)),
     foreign_toJSON = (\<lambda>a. Some (\<lambda>s. (Inr (Str ''foreign''), s))),
     foreign_string = (\<lambda>a. Inr ''[object Object]'')\<rparr>"


definition ListError :: variant where
  "ListError = \<lparr>vid = 0, vname = ''E'', errors = TArr [PStr ''a'', PStr ''b''],
              statics = [''0'', ''1''], super_ok = True, accessors = True,
              preds = [''0'', ''1'']\<rparr>"

definition MyError :: variant where
  "MyError = \<lparr>vid = 0, vname = ''MyError'', errors = TObj 0,
              statics = [''Unexpected'', ''TimedOut''], super_ok = True, accessors = True,
              preds = [''Unexpected'', ''TimedOut'']\<rparr>"

definition ProtoError :: variant where
  "ProtoError = \<lparr>vid = 0, vname = ''E'', errors = TObj 1,
              statics = [''A'', ''prototype''], super_ok = True, accessors = False,
              preds = [''prototype'']\<rparr>"

definition SuperError :: variant where
  "SuperError = \<lparr>vid = 0, vname = ''E'', errors = TObj 2,
              statics = [''super_''], super_ok = False, accessors = True,
              preds = [''super_'']\<rparr>"

definition NameError :: variant where
  "NameError = \<lparr>vid = 0, vname = ''E'', errors = TObj 3,
              statics = [], super_ok = True, accessors = True,
              preds = [''name'']\<rparr>"

definition Foo :: variant where
  "Foo = \<lparr>vid = 0, vname = ''Foo'', errors = TObj 5,
              statics = [''A''], super_ok = True, accessors = True,
              preds = [''A'']\<rparr>"

section \<open>What a call of the factory returns\<close>

lemma example_store_simps [simp]:
  "example_store 0 = test_errors"
  "example_store (Suc 0) = [(''A'', PStr ''a''), (''prototype'', PStr ''p'')]"
  "example_store 2 = [(''super_'', PStr ''s'')]"
  "example_store 3 = [(''name'', PStr ''n'')]"
  "example_store 4 = [(''isSmartError'', PBool True)]"
  "example_store 5 = [(''A'', PStr ''a'')]"
  "example_store 8 = []"
  "example_store 9 = [(''prototype'', PStr ''p''), (''A'', PStr ''a''), (''B'', PStr ''b'')]"
  "example_store 6 = []"
  "example_store 7 = []"
  by (simp_all add: example_store_def)

lemma example_world_simps [simp]:
  "store example_world = example_store"
  "next_vid example_world = 0"
  "foreign_toJSON example_world a = None"
  "foreign_get example_world a k s = (Inr Undefined, s)"
  by (simp_all add: example_world_def)

lemma attach_Inr:
  "attach k T0 = Inr T \<longleftrightarrow>
     (k \<notin> set (preds (assign_static k T0)) \<and> \<not> (accessors (assign_static k T0) \<and> k = ''SmartError'')
      \<and> T = (assign_static k T0)\<lparr>preds := preds (assign_static k T0) @ [k]\<rparr>)"
  by (auto simp: attach_def define_pred_def)

lemma attach_all_Cons_Inr:
  "attach_all (k # ks) T0 = Inr T \<longleftrightarrow> (\<exists>T1. attach k T0 = Inr T1 \<and> attach_all ks T1 = Inr T)"
  by (cases "attach k T0") auto

lemma attach_all_fixed:
  "attach_all ks T0 = Inr T \<Longrightarrow> vid T = vid T0 \<and> vname T = vname T0 \<and> errors T = errors T0"
proof (induction ks arbitrary: T0)
  case Nil then show ?case by simp
next
  case (Cons k ks)
  from Cons.prems(1) obtain T1 where a: "attach k T0 = Inr T1" and b: "attach_all ks T1 = Inr T"
    by (auto split: sum.splits)
  from a have "vid T1 = vid T0 \<and> vname T1 = vname T0 \<and> errors T1 = errors T0"
    by (auto simp: attach_Inr assign_static_def)
  with Cons.IH[OF b] show ?case by simp
qed

lemma attach_all_super_ok:
  "attach_all ks T0 = Inr T \<Longrightarrow> super_ok T = (super_ok T0 \<and> ''super_'' \<notin> set ks)"
proof (induction ks arbitrary: T0)
  case Nil then show ?case by simp
next
  case (Cons k ks)
  from Cons.prems(1) obtain T1 where a: "attach k T0 = Inr T1" and b: "attach_all ks T1 = Inr T"
    by (auto split: sum.splits)
  from a have "super_ok T1 = (super_ok T0 \<and> k \<noteq> ''super_'')"
    by (auto simp: attach_Inr assign_static_def readonly_statics_def)
  with Cons.IH[OF b] show ?case by auto
qed

lemma attach_all_accessors:
  "attach_all ks T0 = Inr T \<Longrightarrow> accessors T = (accessors T0 \<and> ''prototype'' \<notin> set ks)"
proof (induction ks arbitrary: T0)
  case Nil then show ?case by simp
next
  case (Cons k ks)
  from Cons.prems(1) obtain T1 where a: "attach k T0 = Inr T1" and b: "attach_all ks T1 = Inr T"
    by (auto split: sum.splits)
  from a have "accessors T1 = (accessors T0 \<and> k \<noteq> ''prototype'')"
    by (auto simp: attach_Inr assign_static_def readonly_statics_def)
  with Cons.IH[OF b] show ?case by auto
qed

lemma attach_all_statics:
  "attach_all ks T0 = Inr T \<Longrightarrow>
     statics T = statics T0 @ filter (\<lambda>k. k \<notin> set readonly_statics) ks"
proof (induction ks arbitrary: T0)
  case Nil then show ?case by simp
next
  case (Cons k ks)
  from Cons.prems(1) obtain T1 where a: "attach k T0 = Inr T1" and b: "attach_all ks T1 = Inr T"
    by (auto split: sum.splits)
  from a have "statics T1 = statics T0 @ filter (\<lambda>k. k \<notin> set readonly_statics) [k]"
    by (auto simp: attach_Inr assign_static_def)
  with Cons.IH[OF b] show ?case by auto
qed

lemma attach_all_preds_plain:
  "attach_all ks T0 = Inr T \<Longrightarrow> ''prototype'' \<notin> set ks \<Longrightarrow> preds T = preds T0 @ ks"
proof (induction ks arbitrary: T0)
  case Nil then show ?case by simp
next
  case (Cons k ks)
  from Cons.prems(1) obtain T1 where a: "attach k T0 = Inr T1" and b: "attach_all ks T1 = Inr T"
    by (auto split: sum.splits)
  from a Cons.prems(2) have "preds T1 = preds T0 @ [k]"
    by (auto simp: attach_Inr assign_static_def)
  with Cons.IH[OF b] Cons.prems(2) show ?case by auto
qed

lemma attach_all_no_SmartError:
  "attach_all ks T0 = Inr T \<Longrightarrow> accessors T \<Longrightarrow> ''SmartError'' \<notin> set ks"
proof (induction ks arbitrary: T0)
  case Nil then show ?case by simp
next
  case (Cons k ks)
  from Cons.prems(1) obtain T1 where a: "attach k T0 = Inr T1" and b: "attach_all ks T1 = Inr T"
    by (auto split: sum.splits)
  from attach_all_accessors[OF b] Cons.prems(2) have acc1: "accessors T1" by simp
  with a have "k \<noteq> ''SmartError''"
    by (auto simp: attach_Inr)
  with Cons.IH[OF b Cons.prems(2)] show ?case by simp
qed

lemma typeof_string: "typeof v = ''string'' \<longleftrightarrow> (\<exists>s. v = Str s)"
proof (cases v)
  case (Prim p) then show ?thesis by (cases p) auto
qed auto

lemma assert_Inr: "assert w n v t = Inr u \<longleftrightarrow> typeof v = t"
  by (auto simp: assert_def Let_def split: sum.splits)

lemma build_Inr:
  "build w s t = (Inr T, w') \<longleftrightarrow>
     attach_all (table_keys w t) (new_variant w s t) = Inr T
     \<and> w' = w\<lparr>next_vid := Suc (next_vid w)\<rparr>"
  by (auto simp: build_def split: sum.splits)

lemma create_Inr_table:
  "create w name errs = (Inr T, w') \<longleftrightarrow>
     (\<exists>s t. name = Str s
        \<and> ((\<exists>a. errs = CRef a \<and> t = TObj a) \<or> (\<exists>xs. errs = CArray xs \<and> t = TArr xs))
        \<and> build w s t = (Inr T, w'))"
proof
  assume c: "create w name errs = (Inr T, w')"
  have n: "typeof name = ''string''"
    using c by (auto simp: create_def assert_Inr split: sum.splits)
  then obtain s where s: "name = Str s" by (auto simp: typeof_string)
  from c s show "\<exists>s t. name = Str s
        \<and> ((\<exists>a. errs = CRef a \<and> t = TObj a) \<or> (\<exists>xs. errs = CArray xs \<and> t = TArr xs))
        \<and> build w s t = (Inr T, w')"
    by (cases errs) (auto simp: create_def assert_def split: sum.splits)
next
  assume "\<exists>s t. name = Str s
        \<and> ((\<exists>a. errs = CRef a \<and> t = TObj a) \<or> (\<exists>xs. errs = CArray xs \<and> t = TArr xs))
        \<and> build w s t = (Inr T, w')"
  then show "create w name errs = (Inr T, w')"
    by (auto simp: create_def assert_def)
qed

lemma create_Inr:
  "create w name (CRef a) = (Inr T, w') \<longleftrightarrow>
     (\<exists>s. name = Str s
        \<and> attach_all (map fst (store w a)) (new_variant w s (TObj a)) = Inr T
        \<and> w' = w\<lparr>next_vid := Suc (next_vid w)\<rparr>)"
  by (auto simp: create_Inr_table build_Inr)

subsection \<open>The example types\<close>

lemma create_MyError:
  "create example_world (Str ''MyError'') (CRef 0)
     = (Inr MyError, example_world\<lparr>next_vid := 1\<rparr>)"
  by (simp add: create_def build_def assert_def test_errors_def MyError_def attach_def assign_static_def define_pred_def readonly_statics_def new_variant_def)

lemma create_ProtoError:
  "create example_world (Str ''E'') (CRef 1)
     = (Inr ProtoError, example_world\<lparr>next_vid := 1\<rparr>)"
  by (simp add: create_def build_def assert_def ProtoError_def attach_def assign_static_def define_pred_def readonly_statics_def new_variant_def)

lemma create_SuperError:
  "create example_world (Str ''E'') (CRef 2)
     = (Inr SuperError, example_world\<lparr>next_vid := 1\<rparr>)"
  by (simp add: create_def build_def assert_def SuperError_def attach_def assign_static_def define_pred_def readonly_statics_def new_variant_def)

lemma create_NameError:
  "create example_world (Str ''E'') (CRef 3)
     = (Inr NameError, example_world\<lparr>next_vid := 1\<rparr>)"
  by (simp add: create_def build_def assert_def NameError_def attach_def assign_static_def define_pred_def readonly_statics_def new_variant_def)

lemma create_Foo:
  "create example_world (Str ''Foo'') (CRef 5)
     = (Inr Foo, example_world\<lparr>next_vid := 1\<rparr>)"
  by (simp add: create_def build_def assert_def Foo_def attach_def assign_static_def define_pred_def readonly_statics_def new_variant_def)

lemma show_nat_42: "show_nat 42 = ''42''"
  by code_simp


section \<open>Malformed calls of the factory\<close>

text \<open>
  Claim C3. Each of the calls \<^verbatim>\<open>create()\<close>, \<^verbatim>\<open>create(null)\<close>, \<^verbatim>\<open>create('X')\<close>,
  \<^verbatim>\<open>create(42, {})\<close>, \<^verbatim>\<open>create({}, {})\<close>, \<^verbatim>\<open>create([], {})\<close> and \<^verbatim>\<open>create(null, null)\<close>
  throws the \<^verbatim>\<open>TypeError\<close> of \<^verbatim>\<open>assert\<close>, whose message names the parameter, the
  expected type, the type received and the value received. A missing argument is
  \<^verbatim>\<open>undefined\<close>; \<open>a\<close> is the address of an empty object \<^verbatim>\<open>{}\<close>.
\<close>

theorem create_rejects_malformed:
  "store w a = [] \<Longrightarrow>
     create w Undefined (CPrim PUndefined) =
       (Inl (TypeError (''name: expected string; got undefined: '' @ dquote @ ''undefined'' @ dquote)), w)
   \<and> create w Null (CPrim PUndefined) =
       (Inl (TypeError (''name: expected string; got object: '' @ dquote @ ''null'' @ dquote)), w)
   \<and> create w (Str s) (CPrim PUndefined) =
       (Inl (TypeError (''errors: expected object; got undefined: '' @ dquote @ ''undefined'' @ dquote)), w)
   \<and> create w (Num 42) (CRef b) =
       (Inl (TypeError (''name: expected string; got number: '' @ dquote @ ''42'' @ dquote)), w)
   \<and> create w (Ref a) (CRef b) =
       (Inl (TypeError (''name: expected string; got object: '' @ dquote @ ''[object Object]'' @ dquote)), w)
   \<and> create w (Array []) (CRef b) =
       (Inl (TypeError (''name: expected string; got object: '' @ dquote @ dquote)), w)
   \<and> create w Null (CPrim PNull) =
       (Inl (TypeError (''name: expected string; got object: '' @ dquote @ ''null'' @ dquote)), w)"
  by (simp add: create_def assert_def show_int_def show_nat_42)

theorem create_rejects_malformed_witness:
  "store example_world 6 = []
   \<and> create example_world (Ref 6) (CRef 7) =
       (Inl (TypeError (''name: expected string; got object: '' @ dquote @ ''[object Object]'' @ dquote)),
        example_world)
   \<and> create example_world (Num 42) (CRef 7) =
       (Inl (TypeError (''name: expected string; got number: '' @ dquote @ ''42'' @ dquote)),
        example_world)"
  using create_rejects_malformed [of example_world 6 "[]" 7] by simp

text \<open>
  Claim C4. The claim wants \<^verbatim>\<open>create(name, null)\<close> rejected by the assertion on the table,
  with a message that names the parameter. The code does not do that: \<^verbatim>\<open>typeof null\<close>
  is \<^verbatim>\<open>'object'\<close>, so \<^verbatim>\<open>null\<close> passes line 34, and the call fails only at line 148,
  where \<^verbatim>\<open>Object.keys(null)\<close> throws the engine's own \<^verbatim>\<open>TypeError\<close>. This theorem runs
  the code at that input.
\<close>

theorem create_null_codes:
  "assert w ''errors'' Null ''object'' = Inr ()
   \<and> create w (Str s) (CPrim PNull) =
       (Inl (TypeError ''Cannot convert undefined or null to object''), w)"
  by (simp add: create_def assert_def)


section \<open>Distinct types\<close>

lemma creator_instance:
  "creator T K m ca tr = Inr i \<Longrightarrow> \<exists>m' ca'. i = Instance T K m' ca' tr"
  by (auto simp: creator_def construct_def Let_def split: if_splits)

lemma create_vid: "create w n e = (Inr T, w') \<Longrightarrow> vid T = next_vid w \<and> next_vid w' = Suc (next_vid w)"
proof -
  assume c: "create w n e = (Inr T, w')"
  then obtain s t where a1: "attach_all (table_keys w t) (new_variant w s t) = Inr T"
    and w1: "w' = w\<lparr>next_vid := Suc (next_vid w)\<rparr>"
    unfolding create_Inr_table build_Inr by blast
  from attach_all_fixed[OF a1] w1 show ?thesis by (simp add: new_variant_def)
qed

text \<open>
  Claim C9. Two calls of the factory that return, the second made in the world the
  first left or in any later one, return two different function objects, whatever
  their arguments, the same name and the same table included: no instance that a
  creator of one type makes is an instance of the other type.
\<close>

theorem create_twice_distinct:
  "create w n e = (Inr T1, w1) \<Longrightarrow> next_vid w1 \<le> next_vid w1' \<Longrightarrow>
   create w1' n' e' = (Inr T2, w2) \<Longrightarrow>
     vid T1 \<noteq> vid T2
     \<and> (\<forall>K m ca tr i. creator T1 K m ca tr = Inr i \<longrightarrow> instanceof i T1 \<and> \<not> instanceof i T2)
     \<and> (\<forall>K m ca tr i. creator T2 K m ca tr = Inr i \<longrightarrow> instanceof i T2 \<and> \<not> instanceof i T1)"
proof -
  assume c1: "create w n e = (Inr T1, w1)" and le: "next_vid w1 \<le> next_vid w1'"
    and c2: "create w1' n' e' = (Inr T2, w2)"
  from create_vid[OF c1] create_vid[OF c2] le have ne: "vid T1 \<noteq> vid T2" by simp
  have i1: "instanceof i T1 \<and> \<not> instanceof i T2" if "creator T1 K m ca tr = Inr i" for K m ca tr i
  proof -
    from creator_instance[OF that] obtain m' ca' where "i = Instance T1 K m' ca' tr" by blast
    with ne show ?thesis by simp
  qed
  have i2: "instanceof i T2 \<and> \<not> instanceof i T1" if "creator T2 K m ca tr = Inr i" for K m ca tr i
  proof -
    from creator_instance[OF that] obtain m' ca' where "i = Instance T2 K m' ca' tr" by blast
    with ne show ?thesis by simp
  qed
  from ne i1 i2 show ?thesis by blast
qed

theorem create_twice_distinct_witness:
  "create example_world (Str ''Foo'') (CRef 5) = (Inr Foo, example_world\<lparr>next_vid := 1\<rparr>)
   \<and> create (example_world\<lparr>next_vid := 1\<rparr>) (Str ''Foo'') (CRef 5)
        = (Inr (Foo\<lparr>vid := 1\<rparr>), example_world\<lparr>next_vid := 2\<rparr>)
   \<and> vid Foo \<noteq> vid (Foo\<lparr>vid := 1\<rparr>)
   \<and> creator Foo ''A'' Undefined Undefined ''at main'' = Inr (Instance Foo ''A'' Undefined Undefined ''at main'')
   \<and> instanceof (Instance Foo ''A'' Undefined Undefined ''at main'') Foo
   \<and> \<not> instanceof (Instance Foo ''A'' Undefined Undefined ''at main'') (Foo\<lparr>vid := 1\<rparr>)"
proof -
  let ?w1 = "example_world\<lparr>next_vid := 1\<rparr>"
  let ?i = "Instance Foo ''A'' Undefined Undefined ''at main''"
  have c1: "create example_world (Str ''Foo'') (CRef 5) = (Inr Foo, ?w1)"
    by (rule create_Foo)
  have c2: "create ?w1 (Str ''Foo'') (CRef 5) = (Inr (Foo\<lparr>vid := 1\<rparr>), example_world\<lparr>next_vid := 2\<rparr>)"
    by (simp add: create_def build_def assert_def Foo_def attach_def assign_static_def define_pred_def readonly_statics_def new_variant_def)
  have cr: "creator Foo ''A'' Undefined Undefined ''at main'' = Inr ?i"
    by (simp add: creator_def construct_def Foo_def)
  have le: "next_vid ?w1 \<le> next_vid ?w1" by (rule order_refl)
  note d = create_twice_distinct [OF c1 le c2]
  from d have d1: "vid Foo \<noteq> vid (Foo\<lparr>vid := 1\<rparr>)" by (rule conjunct1)
  from d have "\<forall>K m ca tr i. creator Foo K m ca tr = Inr i \<longrightarrow>
      instanceof i Foo \<and> \<not> instanceof i (Foo\<lparr>vid := 1\<rparr>)" by (rule conjunct1[OF conjunct2])
  with cr have d2: "instanceof ?i Foo \<and> \<not> instanceof ?i (Foo\<lparr>vid := 1\<rparr>)" by blast
  from d2 have d2a: "instanceof ?i Foo" by (rule conjunct1)
  from d2 have d2b: "\<not> instanceof ?i (Foo\<lparr>vid := 1\<rparr>)" by (rule conjunct2)
  show ?thesis by (intro conjI) (fact c1 c2 cr d1 d2a d2b)+
qed

section \<open>The fields of a type and the reads on its instances\<close>

lemma create_fields:
  assumes c: "create w n (CRef a) = (Inr T, w')"
  shows "errors T = TObj a" and "vid T = next_vid w" and "n = Str (vname T)"
    and "super_ok T = (''super_'' \<notin> set (map fst (store w a)))"
    and "accessors T = (''prototype'' \<notin> set (map fst (store w a)))"
    and "statics T = filter (\<lambda>k. k \<notin> set readonly_statics) (map fst (store w a))"
    and "''prototype'' \<notin> set (map fst (store w a)) \<Longrightarrow> preds T = map fst (store w a)"
    and "''prototype'' \<notin> set (map fst (store w a)) \<Longrightarrow> ''SmartError'' \<notin> set (map fst (store w a))"
proof -
  from c obtain s where n: "n = Str s"
    and a: "attach_all (map fst (store w a)) (new_variant w s (TObj a)) = Inr T"
    unfolding create_Inr by blast
  from attach_all_fixed[OF a] n show "errors T = TObj a" "vid T = next_vid w" "n = Str (vname T)"
    by (simp_all add: new_variant_def)
  from attach_all_super_ok[OF a] show "super_ok T = (''super_'' \<notin> set (map fst (store w a)))"
    by (simp add: new_variant_def)
  from attach_all_accessors[OF a] show acc: "accessors T = (''prototype'' \<notin> set (map fst (store w a)))"
    by (simp add: new_variant_def)
  from attach_all_statics[OF a]
  show "statics T = filter (\<lambda>k. k \<notin> set readonly_statics) (map fst (store w a))"
    by (simp add: new_variant_def)
  show "preds T = map fst (store w a)" if "''prototype'' \<notin> set (map fst (store w a))"
    using attach_all_preds_plain[OF a that] by (simp add: new_variant_def)
  show "''SmartError'' \<notin> set (map fst (store w a))" if "''prototype'' \<notin> set (map fst (store w a))"
    using attach_all_no_SmartError[OF a] acc that by simp
qed

lemma get_prop_pred:
  "accessors T \<Longrightarrow> K \<in> set (preds T) \<Longrightarrow> K \<noteq> ''SmartError'' \<Longrightarrow>
     get_prop w (Instance T c m ca st) (''is'' @ K) = Bool (c = K)"
  by (simp add: pred_prop_def)

lemma construct_Inr:
  "construct T c m ca tr = Inr i \<longleftrightarrow>
     super_ok T \<and> i = Instance T c (if instanceof_Error m then Undefined else m)
                                   (if instanceof_Error m then m else ca) tr"
  by (auto simp: construct_def)


lemma intact_predicates:
  assumes cr: "create w n (CRef a) = (Inr T, w1)"
    and np: "''prototype'' \<notin> set (map fst (store w a))"
    and K: "K \<in> set (map fst (store w a))"
  shows "get_prop w2 (Instance T c m ca st) (''is'' @ K) = Bool (c = K)"
proof -
  from create_fields(5)[OF cr] np have acc: "accessors T" by simp
  from create_fields(7)[OF cr np] have pr: "preds T = map fst (store w a)" .
  from create_fields(8)[OF cr np] have ns: "''SmartError'' \<notin> set (map fst (store w a))" .
  from K ns have "K \<noteq> ''SmartError''" by blast
  with acc K pr show ?thesis by (intro get_prop_pred) simp_all
qed

lemma construct_MyError:
  "construct MyError c Undefined Undefined tr = Inr (Instance MyError c Undefined Undefined tr)"
  by (simp add: construct_def MyError_def)

lemma get_prop_message_absent:
  "c \<notin> fst ` set (store w a) \<Longrightarrow> c \<notin> set object_prototype_names \<Longrightarrow> errors T = TObj a \<Longrightarrow>
   get_prop w (Instance T c m ca st) ''message'' = Undefined"
  by (simp add: table_get_def pred_prop_def map_of_eq_None_iff[THEN iffD2])


section \<open>The message is looked up when it is read\<close>





section \<open>The creators\<close>

text \<open>
  Claim C1, as written, fails. By lines 44-47 a metadata value that is an \<^verbatim>\<open>Error\<close>
  becomes the cause, and the metadata of the instance is \<^verbatim>\<open>undefined\<close>. Besides, the
  assignment of line 149 does nothing for a code named \<^verbatim>\<open>name\<close> (so \<^verbatim>\<open>T.name\<close> is no
  creator), replaces the prototype for a code named \<^verbatim>\<open>prototype\<close> (so the instances
  have no accessor \<^verbatim>\<open>code\<close>), and replaces the parent constructor for a code named
  \<^verbatim>\<open>super_\<close> (so no construction returns).
\<close>

theorem creator_counterexample:
  "create example_world (Str ''MyError'') (CRef 0) = (Inr MyError, example_world\<lparr>next_vid := 1\<rparr>)
   \<and> creator MyError ''Unexpected'' (ErrorObj [(''message'', PStr ''boom'')]) Undefined ''at main''
        = Inr (Instance MyError ''Unexpected'' Undefined (ErrorObj [(''message'', PStr ''boom'')]) ''at main'')
   \<and> get_prop example_world
        (Instance MyError ''Unexpected'' Undefined (ErrorObj [(''message'', PStr ''boom'')]) ''at main'')
        ''metadata'' \<noteq> ErrorObj [(''message'', PStr ''boom'')]
   \<and> create example_world (Str ''E'') (CRef 3) = (Inr NameError, example_world\<lparr>next_vid := 1\<rparr>)
   \<and> creator NameError ''name'' (Str ''foo'') Undefined ''at main''
        = Inl (TypeError ''SmartError.name is not a function'')
   \<and> create example_world (Str ''E'') (CRef 1) = (Inr ProtoError, example_world\<lparr>next_vid := 1\<rparr>)
   \<and> creator ProtoError ''A'' (Str ''foo'') Undefined ''at main''
        = Inr (Instance ProtoError ''A'' (Str ''foo'') Undefined ''at main'')
   \<and> get_prop example_world (Instance ProtoError ''A'' (Str ''foo'') Undefined ''at main'') ''code''
        \<noteq> Str ''A''
   \<and> create example_world (Str ''E'') (CRef 2) = (Inr SuperError, example_world\<lparr>next_vid := 1\<rparr>)
   \<and> creator SuperError ''super_'' (Str ''foo'') Undefined ''at main''
        = Inl (RangeError ''Maximum call stack size exceeded'')"
proof -
  have a: "creator MyError ''Unexpected'' (ErrorObj [(''message'', PStr ''boom'')]) Undefined ''at main''
        = Inr (Instance MyError ''Unexpected'' Undefined (ErrorObj [(''message'', PStr ''boom'')]) ''at main'')"
    by (simp add: creator_def construct_def MyError_def)
  have b: "get_prop example_world
        (Instance MyError ''Unexpected'' Undefined (ErrorObj [(''message'', PStr ''boom'')]) ''at main'')
        ''metadata'' \<noteq> ErrorObj [(''message'', PStr ''boom'')]"
    by (simp add: MyError_def)
  have c: "creator NameError ''name'' (Str ''foo'') Undefined ''at main''
        = Inl (TypeError ''SmartError.name is not a function'')"
    by (simp add: creator_def NameError_def)
  have d: "creator ProtoError ''A'' (Str ''foo'') Undefined ''at main''
        = Inr (Instance ProtoError ''A'' (Str ''foo'') Undefined ''at main'')"
    by (simp add: creator_def construct_def ProtoError_def)
  have e: "get_prop example_world (Instance ProtoError ''A'' (Str ''foo'') Undefined ''at main'') ''code''
        \<noteq> Str ''A''"
    by (simp add: ProtoError_def pred_prop_def)
  have f: "creator SuperError ''super_'' (Str ''foo'') Undefined ''at main''
        = Inl (RangeError ''Maximum call stack size exceeded'')"
    by (simp add: creator_def construct_def SuperError_def)
  show ?thesis
    by (intro conjI) (fact create_MyError a b create_NameError c create_ProtoError d e create_SuperError f)+
qed

text \<open>
  Claim C1, amended. For every type \<open>T\<close> made of a table without a code named
  \<^verbatim>\<open>prototype\<close> or \<^verbatim>\<open>super_\<close>, every declared code \<open>K\<close> other than \<^verbatim>\<open>name\<close>, \<^verbatim>\<open>length\<close>,
  \<^verbatim>\<open>arguments\<close> and \<^verbatim>\<open>caller\<close>, and all arguments: the creator \<^verbatim>\<open>T[K]\<close> returns an
  instance of \<open>T\<close> whose code is \<open>K\<close>, whose message is the table's entry for \<open>K\<close> at the
  time of the read, whose predicate \<^verbatim>\<open>is${K}\<close> is true and whose other predicates are
  false. Its metadata is the first argument, unless that is an \<^verbatim>\<open>Error\<close>: then the
  metadata is \<^verbatim>\<open>undefined\<close> and the cause is the first argument.
\<close>

theorem creator_result:
  "create w n (CRef a) = (Inr T, w1) \<Longrightarrow>
   ''prototype'' \<notin> set (map fst (store w a)) \<Longrightarrow> ''super_'' \<notin> set (map fst (store w a)) \<Longrightarrow>
   K \<in> set (map fst (store w a)) \<Longrightarrow> K \<notin> set readonly_statics \<Longrightarrow>
     (\<exists>i. creator T K m ca tr = Inr i
        \<and> instanceof i T
        \<and> get_prop w2 i ''code'' = Str K
        \<and> get_prop w2 i ''metadata'' = (if instanceof_Error m then Undefined else m)
        \<and> get_prop w2 i ''cause'' = (if instanceof_Error m then m else ca)
        \<and> get_prop w2 i ''message'' = table_get w2 a K
        \<and> get_prop w2 i (''is'' @ K) = Bool True
        \<and> (\<forall>K' \<in> set (map fst (store w a)). K' \<noteq> K \<longrightarrow> get_prop w2 i (''is'' @ K') = Bool False))"
proof -
  assume cr: "create w n (CRef a) = (Inr T, w1)"
    and np: "''prototype'' \<notin> set (map fst (store w a))"
    and ns: "''super_'' \<notin> set (map fst (store w a))"
    and K: "K \<in> set (map fst (store w a))" and Kr: "K \<notin> set readonly_statics"
  let ?i = "Instance T K (if instanceof_Error m then Undefined else m)
                         (if instanceof_Error m then m else ca) tr"
  from create_fields(5)[OF cr] np have acc: "accessors T" by simp
  from create_fields(4)[OF cr] ns have so: "super_ok T" by simp
  from create_fields(1)[OF cr] have e: "errors T = TObj a" .
  from create_fields(6)[OF cr] K Kr have st: "K \<in> set (statics T)" by simp
  from so have co: "construct T K m ca tr = Inr ?i" by (simp add: construct_Inr)
  with st have c: "creator T K m ca tr = Inr ?i" by (simp add: creator_def)
  have i: "instanceof ?i T" by simp
  from acc have g1: "get_prop w2 ?i ''code'' = Str K" by simp
  from acc have g2: "get_prop w2 ?i ''metadata'' = (if instanceof_Error m then Undefined else m)" by simp
  from acc have g3: "get_prop w2 ?i ''cause'' = (if instanceof_Error m then m else ca)" by simp
  from acc e have g4: "get_prop w2 ?i ''message'' = table_get w2 a K" by simp
  from intact_predicates[OF cr np K] have g5: "get_prop w2 ?i (''is'' @ K) = Bool True" by simp
  have g6: "\<forall>K' \<in> set (map fst (store w a)). K' \<noteq> K \<longrightarrow> get_prop w2 ?i (''is'' @ K') = Bool False"
  proof (intro ballI impI)
    fix K' assume "K' \<in> set (map fst (store w a))" and "K' \<noteq> K"
    with intact_predicates[OF cr np, of K'] show "get_prop w2 ?i (''is'' @ K') = Bool False"
      by simp
  qed
  from c i g1 g2 g3 g4 g5 g6 show ?thesis by (intro exI[of _ ?i] conjI)
qed

theorem creator_result_witness:
  "create example_world (Str ''MyError'') (CRef 0) = (Inr MyError, example_world\<lparr>next_vid := 1\<rparr>)
   \<and> ''prototype'' \<notin> set (map fst (store example_world 0))
   \<and> ''super_'' \<notin> set (map fst (store example_world 0))
   \<and> ''Unexpected'' \<in> set (map fst (store example_world 0))
   \<and> ''Unexpected'' \<notin> set readonly_statics
   \<and> creator MyError ''Unexpected'' (Str ''foo'') Undefined ''at main''
        = Inr (Instance MyError ''Unexpected'' (Str ''foo'') Undefined ''at main'')
   \<and> instanceof (Instance MyError ''Unexpected'' (Str ''foo'') Undefined ''at main'') MyError
   \<and> get_prop example_world (Instance MyError ''Unexpected'' (Str ''foo'') Undefined ''at main'') ''metadata''
        = Str ''foo''
   \<and> get_prop example_world (Instance MyError ''Unexpected'' (Str ''foo'') Undefined ''at main'') ''message''
        = Str ''An unexpected error has occurred.''
   \<and> get_prop example_world (Instance MyError ''Unexpected'' (Str ''foo'') Undefined ''at main'') ''isUnexpected''
        = Bool True
   \<and> get_prop example_world (Instance MyError ''Unexpected'' (Str ''foo'') Undefined ''at main'') ''isTimedOut''
        = Bool False"
proof -
  let ?i = "Instance MyError ''Unexpected'' (Str ''foo'') Undefined ''at main''"
  have np: "''prototype'' \<notin> set (map fst (store example_world 0))" by (simp add: test_errors_def)
  have ns: "''super_'' \<notin> set (map fst (store example_world 0))" by (simp add: test_errors_def)
  have K: "''Unexpected'' \<in> set (map fst (store example_world 0))" by (simp add: test_errors_def)
  have K': "''TimedOut'' \<in> set (map fst (store example_world 0))" by (simp add: test_errors_def)
  have Kr: "''Unexpected'' \<notin> set readonly_statics" by (simp add: readonly_statics_def)
  have c: "creator MyError ''Unexpected'' (Str ''foo'') Undefined ''at main'' = Inr ?i"
    by (simp add: creator_def construct_def MyError_def)
  from creator_result [OF create_MyError np ns K Kr, of "Str ''foo''" Undefined "''at main''" example_world]
  obtain i where ci: "creator MyError ''Unexpected'' (Str ''foo'') Undefined ''at main'' = Inr i"
    and io: "instanceof i MyError"
    and md: "get_prop example_world i ''metadata'' = (if instanceof_Error (Str ''foo'') then Undefined else Str ''foo'')"
    and ms: "get_prop example_world i ''message'' = table_get example_world 0 ''Unexpected''"
    and p1: "get_prop example_world i (''is'' @ ''Unexpected'') = Bool True"
    and p2: "\<forall>K' \<in> set (map fst (store example_world 0)). K' \<noteq> ''Unexpected''
               \<longrightarrow> get_prop example_world i (''is'' @ K') = Bool False"
    by blast
  from ci c have i: "i = ?i" by simp
  from io have r1: "instanceof ?i MyError" unfolding i .
  from md have r2: "get_prop example_world ?i ''metadata'' = Str ''foo''" unfolding i by simp
  from ms have r3: "get_prop example_world ?i ''message'' = Str ''An unexpected error has occurred.''"
    unfolding i by (simp add: table_get_def test_errors_def)
  from p1 have r4: "get_prop example_world ?i ''isUnexpected'' = Bool True" unfolding i by simp
  from bspec[OF p2 K'] have r5: "get_prop example_world ?i ''isTimedOut'' = Bool False"
    unfolding i by simp
  show ?thesis by (intro conjI) (fact create_MyError np ns K Kr c r1 r2 r3 r4 r5)+
qed

section \<open>More about the types of the factory\<close>


lemma show_nat_0: "show_nat 0 = ''0''" by code_simp
lemma show_nat_1: "show_nat 1 = ''1''" by code_simp
lemma show_nat_Suc_0: "show_nat (Suc 0) = ''1''" by code_simp

lemma create_ListError:
  "create example_world (Str ''E'') (CArray [PStr ''a'', PStr ''b''])
     = (Inr ListError, example_world\<lparr>next_vid := 1\<rparr>)"
  by (simp add: create_def build_def assert_def ListError_def attach_def assign_static_def define_pred_def
        readonly_statics_def new_variant_def upt_rec[of 0] upt_rec[of "Suc 0"] show_nat_0 show_nat_Suc_0)

lemma attach_all_preds:
  "attach_all ks T0 = Inr T \<Longrightarrow> distinct ks \<Longrightarrow>
     preds T = (if ''prototype'' \<in> set ks then dropWhile (\<lambda>k. k \<noteq> ''prototype'') ks
                else preds T0 @ ks)"
proof (induction ks arbitrary: T0)
  case Nil then show ?case by simp
next
  case (Cons k ks)
  from Cons.prems(1) obtain T1 where a: "attach k T0 = Inr T1" and b: "attach_all ks T1 = Inr T"
    by (auto split: sum.splits)
  show ?case
  proof (cases "k = ''prototype''")
    case True
    with Cons.prems(2) have np: "''prototype'' \<notin> set ks" by simp
    from a True have "preds T1 = [k]"
      by (auto simp: attach_Inr assign_static_def readonly_statics_def)
    with attach_all_preds_plain[OF b np] True show ?thesis by simp
  next
    case False
    from a False have "preds T1 = preds T0 @ [k]"
      by (auto simp: attach_Inr assign_static_def)
    with Cons.IH[OF b] Cons.prems(2) False show ?thesis by auto
  qed
qed

lemma create_table:
  assumes c: "create w n e = (Inr T, w')"
  shows "attach_all (table_keys w (errors T)) (new_variant w (vname T) (errors T)) = Inr T"
    and "e = CRef a \<Longrightarrow> errors T = TObj a"
    and "e = CArray xs \<Longrightarrow> errors T = TArr xs"
proof -
  from c obtain s t where a: "attach_all (table_keys w t) (new_variant w s t) = Inr T"
    and e: "(\<exists>a. e = CRef a \<and> t = TObj a) \<or> (\<exists>xs. e = CArray xs \<and> t = TArr xs)"
    unfolding create_Inr_table build_Inr by blast
  from attach_all_fixed[OF a] have f: "errors T = t" "vname T = s" by (simp_all add: new_variant_def)
  from a f show "attach_all (table_keys w (errors T)) (new_variant w (vname T) (errors T)) = Inr T"
    by simp
  from e f show "errors T = TObj a" if "e = CRef a" using that by auto
  from e f show "errors T = TArr xs" if "e = CArray xs" using that by auto
qed

lemma create_flags:
  assumes c: "create w n e = (Inr T, w')"
  shows "super_ok T = (''super_'' \<notin> set (table_keys w (errors T)))"
    and "accessors T = (''prototype'' \<notin> set (table_keys w (errors T)))"
    and "distinct (table_keys w (errors T)) \<Longrightarrow>
           preds T = (if ''prototype'' \<in> set (table_keys w (errors T))
                      then dropWhile (\<lambda>k. k \<noteq> ''prototype'') (table_keys w (errors T))
                      else table_keys w (errors T))"
    and "accessors T \<Longrightarrow> ''SmartError'' \<notin> set (table_keys w (errors T))"
proof -
  note a = create_table(1)[OF c]
  from attach_all_super_ok[OF a] show "super_ok T = (''super_'' \<notin> set (table_keys w (errors T)))"
    by (simp add: new_variant_def)
  from attach_all_accessors[OF a] show "accessors T = (''prototype'' \<notin> set (table_keys w (errors T)))"
    by (simp add: new_variant_def)
  show "preds T = (if ''prototype'' \<in> set (table_keys w (errors T))
                      then dropWhile (\<lambda>k. k \<noteq> ''prototype'') (table_keys w (errors T))
                      else table_keys w (errors T))" if "distinct (table_keys w (errors T))"
    using attach_all_preds[OF a that] by (simp add: new_variant_def)
  show "''SmartError'' \<notin> set (table_keys w (errors T))" if "accessors T"
    using attach_all_no_SmartError[OF a that] .
qed


section \<open>The predicates of the codes\<close>




section \<open>The constructor\<close>




section \<open>Codes that are not declared\<close>

text \<open>
  Claim C7, as written, fails three times. The lookup of line 75 finds what the
  table inherits from \<^verbatim>\<open>Object.prototype\<close>: the message of an instance constructed with
  the code \<^verbatim>\<open>toString\<close>, which the table does not declare, is that function and not
  \<^verbatim>\<open>undefined\<close>. The constructor of a type with a code named \<^verbatim>\<open>super_\<close> does not return.
  And line 34 accepts an array as the table: the instance constructed with the code
  \<^verbatim>\<open>length\<close>, which is no key of \<^verbatim>\<open>['a', 'b']\<close>, has the message 2.
\<close>

theorem unknown_code_counterexample:
  "create example_world (Str ''MyError'') (CRef 0) = (Inr MyError, example_world\<lparr>next_vid := 1\<rparr>)
   \<and> ''toString'' \<notin> set (map fst (store example_world 0))
   \<and> construct MyError ''toString'' Undefined Undefined ''at main''
        = Inr (Instance MyError ''toString'' Undefined Undefined ''at main'')
   \<and> get_prop example_world (Instance MyError ''toString'' Undefined Undefined ''at main'') ''message''
        = Builtin ''toString''
   \<and> create example_world (Str ''E'') (CRef 2) = (Inr SuperError, example_world\<lparr>next_vid := 1\<rparr>)
   \<and> ''X'' \<notin> set (map fst (store example_world 2))
   \<and> construct SuperError ''X'' Undefined Undefined ''at main''
        = Inl (RangeError ''Maximum call stack size exceeded'')
   \<and> create example_world (Str ''E'') (CArray [PStr ''a'', PStr ''b''])
        = (Inr ListError, example_world\<lparr>next_vid := 1\<rparr>)
   \<and> ''length'' \<notin> set (table_keys example_world (errors ListError))
   \<and> construct ListError ''length'' Undefined Undefined ''at main''
        = Inr (Instance ListError ''length'' Undefined Undefined ''at main'')
   \<and> get_prop example_world (Instance ListError ''length'' Undefined Undefined ''at main'') ''message''
        = Num 2"
proof -
  have k: "''toString'' \<notin> set (map fst (store example_world 0))" by (simp add: test_errors_def)
  have co: "construct MyError ''toString'' Undefined Undefined ''at main''
        = Inr (Instance MyError ''toString'' Undefined Undefined ''at main'')"
    by (rule construct_MyError)
  have g: "get_prop example_world (Instance MyError ''toString'' Undefined Undefined ''at main'') ''message''
        = Builtin ''toString''"
    by (simp add: MyError_def table_get_def test_errors_def object_prototype_names_def)
  have k2: "''X'' \<notin> set (map fst (store example_world 2))" by simp
  have s: "construct SuperError ''X'' Undefined Undefined ''at main''
        = Inl (RangeError ''Maximum call stack size exceeded'')"
    by (simp add: construct_def SuperError_def)
  have k3: "''length'' \<notin> set (table_keys example_world (errors ListError))"
    by (simp add: ListError_def upt_rec[of 0] upt_rec[of "Suc 0"] show_nat_0 show_nat_Suc_0)
  have c3: "construct ListError ''length'' Undefined Undefined ''at main''
        = Inr (Instance ListError ''length'' Undefined Undefined ''at main'')"
    by (simp add: construct_def ListError_def)
  have g3: "get_prop example_world (Instance ListError ''length'' Undefined Undefined ''at main'') ''message''
        = Num 2"
    by (simp add: ListError_def array_get_def)
  show ?thesis
    by (intro conjI) (fact create_MyError k co g create_SuperError k2 s create_ListError k3 c3 g3)+
qed

text \<open>
  Claim C7, amended. For every type of the factory whose table has no key named
  \<^verbatim>\<open>super_\<close> and every string \<open>c\<close>, the constructor returns an instance: it checks
  nothing. When the table is a plain object and \<open>c\<close> is neither one of its keys at the
  time of the read nor the name of a member of \<^verbatim>\<open>Object.prototype\<close>, the message of that
  instance is \<^verbatim>\<open>undefined\<close>.
\<close>

theorem unknown_code_message:
  "create w n e = (Inr T, w1) \<Longrightarrow> ''super_'' \<notin> set (table_keys w (errors T)) \<Longrightarrow>
     (\<exists>i. construct T c m ca tr = Inr i)
     \<and> (\<forall>i a. construct T c m ca tr = Inr i \<longrightarrow> e = CRef a \<longrightarrow>
           c \<notin> fst ` set (store w2 a) \<longrightarrow> c \<notin> set object_prototype_names \<longrightarrow>
           get_prop w2 i ''message'' = Undefined)"
proof -
  assume cr: "create w n e = (Inr T, w1)"
    and ns: "''super_'' \<notin> set (table_keys w (errors T))"
  from create_flags(1)[OF cr] ns have so: "super_ok T" by simp
  from so have ex: "\<exists>i. construct T c m ca tr = Inr i" by (simp add: construct_Inr)
  have "get_prop w2 i ''message'' = Undefined"
    if co: "construct T c m ca tr = Inr i" and e: "e = CRef a"
      and c1: "c \<notin> fst ` set (store w2 a)" and c2: "c \<notin> set object_prototype_names" for i a
  proof -
    from co obtain m' ca' where i: "i = Instance T c m' ca' tr" by (auto simp: construct_Inr)
    from create_table(2)[OF cr e] have t: "errors T = TObj a" .
    show ?thesis unfolding i by (rule get_prop_message_absent[OF c1 c2 t])
  qed
  with ex show ?thesis by blast
qed

theorem unknown_code_message_witness:
  "create example_world (Str ''MyError'') (CRef 0) = (Inr MyError, example_world\<lparr>next_vid := 1\<rparr>)
   \<and> ''super_'' \<notin> set (table_keys example_world (errors MyError))
   \<and> ''Nope'' \<notin> fst ` set (store example_world 0)
   \<and> ''Nope'' \<notin> set object_prototype_names
   \<and> construct MyError ''Nope'' Undefined Undefined ''at main''
        = Inr (Instance MyError ''Nope'' Undefined Undefined ''at main'')
   \<and> get_prop example_world (Instance MyError ''Nope'' Undefined Undefined ''at main'') ''message'' = Undefined"
proof -
  let ?i = "Instance MyError ''Nope'' Undefined Undefined ''at main''"
  have ns: "''super_'' \<notin> set (table_keys example_world (errors MyError))"
    by (simp add: MyError_def test_errors_def)
  have c1: "''Nope'' \<notin> fst ` set (store example_world 0)" by (simp add: test_errors_def)
  have c2: "''Nope'' \<notin> set object_prototype_names" by (simp add: object_prototype_names_def)
  have co: "construct MyError ''Nope'' Undefined Undefined ''at main'' = Inr ?i"
    by (rule construct_MyError)
  from unknown_code_message [OF create_MyError ns, of "''Nope''" Undefined Undefined "''at main''" example_world]
  have "\<forall>i a. construct MyError ''Nope'' Undefined Undefined ''at main'' = Inr i \<longrightarrow> CRef 0 = CRef a \<longrightarrow>
           ''Nope'' \<notin> fst ` set (store example_world a) \<longrightarrow> ''Nope'' \<notin> set object_prototype_names \<longrightarrow>
           get_prop example_world i ''message'' = Undefined" by (rule conjunct2)
  then have "construct MyError ''Nope'' Undefined Undefined ''at main'' = Inr ?i \<longrightarrow> CRef 0 = CRef 0 \<longrightarrow>
           ''Nope'' \<notin> fst ` set (store example_world 0) \<longrightarrow> ''Nope'' \<notin> set object_prototype_names \<longrightarrow>
           get_prop example_world ?i ''message'' = Undefined" by blast
  with co c1 c2 have g: "get_prop example_world ?i ''message'' = Undefined" by blast
  show ?thesis by (intro conjI) (fact create_MyError ns c1 c2 co g)+
qed

section \<open>The shape of the serialization\<close>






lemma quiet_world_simps [simp]:
  "store quiet_world = example_store"
  "foreign_toJSON quiet_world a = Some (\<lambda>s. (Inr (Str ''foreign''), s))"
  "foreign_get quiet_world a k s = (Inr (if k = ''isSmartError'' then Bool True else Undefined), s)"
  by (simp_all add: quiet_world_def)

lemma quiet_world_store [simp]: "quiet_world\<lparr>store := example_store\<rparr> = quiet_world"
  by (simp add: quiet_world_def)

lemma counting_world_simps [simp]:
  "store counting_world = example_store"
  "foreign_toJSON (counting_world\<lparr>store := s\<rparr>) a = Some counting"
  "foreign_toJSON counting_world a = Some counting"
  "foreign_get (counting_world\<lparr>store := s'\<rparr>) a k s
     = (Inr (if k = ''isSmartError'' then Bool True else Undefined), s)"
  "foreign_get counting_world a k s = (Inr (if k = ''isSmartError'' then Bool True else Undefined), s)"
  by (simp_all add: counting_world_def)

lemma counting_world_store [simp]: "counting_world\<lparr>store := example_store\<rparr> = counting_world"
  by (simp add: counting_world_def)




section \<open>Serialization and the state\<close>

lemma run_quiet: "snd (b (store w)) = store w \<Longrightarrow> snd (run w b) = w"
  by (cases "b (store w)") (simp add: run_def)

lemma read_prop_quiet:
  "\<forall>a. v = Foreign a \<or> v = ForeignError a \<longrightarrow> quiet w a \<Longrightarrow> snd (read_prop w v k) = w"
  by (cases v) (auto simp: quiet_def intro!: run_quiet)

lemma error_summary_quiet:
  assumes q: "\<forall>a. v = Foreign a \<or> v = ForeignError a \<longrightarrow> quiet w a"
  shows "snd (error_summary w v) = w"
proof -
  have r: "snd (read_prop w v k) = w" for k by (rule read_prop_quiet[OF q])
  obtain x1 w1 where a: "read_prop w v ''code'' = (x1, w1)" by (cases "read_prop w v ''code''")
  with r[of "''code''"] have w1: "w1 = w" by simp
  obtain x2 w2 where b: "read_prop w v ''message'' = (x2, w2)" by (cases "read_prop w v ''message''")
  with r[of "''message''"] have w2: "w2 = w" by simp
  obtain x3 w3 where c: "read_prop w v ''stack'' = (x3, w3)" by (cases "read_prop w v ''stack''")
  with r[of "''stack''"] have w3: "w3 = w" by simp
  show ?thesis
    using a b c unfolding w1 w2 w3 error_summary_def
    by (cases x1; cases x2; cases x3) simp_all
qed

lemma call_foreign_quiet: "quiet w a \<Longrightarrow> snd (call_foreign w a) = w"
proof (cases "foreign_toJSON w a")
  case None then show ?thesis by (simp add: call_foreign_def)
next
  case (Some b)
  assume "quiet w a"
  with Some have "snd (b (store w)) = store w" by (simp add: quiet_def)
  then have "snd (run w b) = w" by (rule run_quiet)
  with Some show ?thesis
    by (cases "run w b") (auto simp: call_foreign_def split: sum.splits)
qed

lemma toJSON_call_quiet:
  "\<forall>a. last_cause v = Foreign a \<or> last_cause v = ForeignError a \<longrightarrow> quiet w a \<Longrightarrow>
     snd (toJSON_call w v) = w"
proof (induction v)
  case (Instance T c m ca st)
  have q: "\<forall>a. last_cause ca = Foreign a \<or> last_cause ca = ForeignError a \<longrightarrow> quiet w a"
    using Instance.prems by simp
  have qc: "\<forall>a. ca = Foreign a \<or> ca = ForeignError a \<longrightarrow> quiet w a"
    using q by auto
  obtain x w1 where rd: "read_prop w ca ''isSmartError'' = (x, w1)"
    by (cases "read_prop w ca ''isSmartError''")
  with read_prop_quiet[OF qc, of "''isSmartError''"] have w1: "w1 = w" by simp
  have ih: "snd (toJSON_call w ca) = w" by (rule Instance.IH(2)[OF q])
  have es: "snd (error_summary w ca) = w" by (rule error_summary_quiet[OF qc])
  show ?case
    using rd ih es unfolding w1
    by (cases x; cases "toJSON_call w ca"; cases "error_summary w ca")
       (auto simp: Let_def split: sum.splits)
next
  case (Foreign a) then show ?case by (simp add: call_foreign_quiet)
next
  case (ForeignError a) then show ?case by (simp add: call_foreign_quiet)
qed simp_all

lemma get_prop_fields:
  "k \<in> set [''code'', ''metadata'', ''cause'', ''stack''] \<Longrightarrow>
     get_prop w' (Instance T c m ca st) k = get_prop w (Instance T c m ca st) k"
  by (auto simp: pred_prop_def)

lemma counting_first:
  "toJSON_call counting_world (Instance MyError ''Unexpected'' Undefined (Foreign 0) ''at main'')
     = (Inr (Props [(''name'', Val (Str ''MyError'')), (''code'', Val (Str ''Unexpected'')),
                    (''cause'', Val (Num 0)), (''stack'', Val (Str ''at main''))]),
        counting_world\<lparr>store := example_store (8 := [(''0'', PNull)])\<rparr>)"
  by (simp add: MyError_def run_def call_foreign_def counting_def show_nat_0)

lemma counting_second:
  "toJSON_call (counting_world\<lparr>store := example_store (8 := [(''0'', PNull)])\<rparr>)
       (Instance MyError ''Unexpected'' Undefined (Foreign 0) ''at main'')
     = (Inr (Props [(''name'', Val (Str ''MyError'')), (''code'', Val (Str ''Unexpected'')),
                    (''cause'', Val (Num 1)), (''stack'', Val (Str ''at main''))]),
        counting_world\<lparr>store := (example_store (8 := [(''0'', PNull)]))
                                   (8 := [(''0'', PNull), (''1'', PNull)])\<rparr>)"
  by (simp add: MyError_def run_def call_foreign_def counting_def show_nat_Suc_0)

lemma quiet_quiet_world: "quiet quiet_world a"
  by (simp add: quiet_def)

text \<open>
  Claim C8, as written, fails: lines 114-115 read a property of the cause and call
  its \<^verbatim>\<open>toJSON\<close>, which is any code. With a cause whose \<^verbatim>\<open>toJSON\<close> counts its calls, the
  first call of \<^verbatim>\<open>toJSON\<close> on the instance returns a structure with the cause 0, the
  second one with the cause 1.
\<close>

theorem toJSON_idempotent_counterexample:
  "toJSON counting_world (Instance MyError ''Unexpected'' Undefined (Foreign 0) ''at main'')
     = Inr (Props [(''name'', Val (Str ''MyError'')), (''code'', Val (Str ''Unexpected'')),
                   (''cause'', Val (Num 0)), (''stack'', Val (Str ''at main''))])
   \<and> toJSON (snd (toJSON_call counting_world
                     (Instance MyError ''Unexpected'' Undefined (Foreign 0) ''at main'')))
        (Instance MyError ''Unexpected'' Undefined (Foreign 0) ''at main'')
     = Inr (Props [(''name'', Val (Str ''MyError'')), (''code'', Val (Str ''Unexpected'')),
                   (''cause'', Val (Num 1)), (''stack'', Val (Str ''at main''))])
   \<and> toJSON (snd (toJSON_call counting_world
                     (Instance MyError ''Unexpected'' Undefined (Foreign 0) ''at main'')))
        (Instance MyError ''Unexpected'' Undefined (Foreign 0) ''at main'')
     \<noteq> toJSON counting_world (Instance MyError ''Unexpected'' Undefined (Foreign 0) ''at main'')"
proof -
  let ?i = "Instance MyError ''Unexpected'' Undefined (Foreign 0) ''at main''"
  have a: "toJSON counting_world ?i
     = Inr (Props [(''name'', Val (Str ''MyError'')), (''code'', Val (Str ''Unexpected'')),
                   (''cause'', Val (Num 0)), (''stack'', Val (Str ''at main''))])"
    unfolding toJSON_def counting_first by simp
  have b: "toJSON (snd (toJSON_call counting_world ?i)) ?i
     = Inr (Props [(''name'', Val (Str ''MyError'')), (''code'', Val (Str ''Unexpected'')),
                   (''cause'', Val (Num 1)), (''stack'', Val (Str ''at main''))])"
    unfolding toJSON_def counting_first snd_conv counting_second by simp
  have c: "toJSON (snd (toJSON_call counting_world ?i)) ?i \<noteq> toJSON counting_world ?i"
    unfolding a b by simp
  show ?thesis by (intro conjI) (fact a b c)+
qed

text \<open>
  Claim C8, amended. \<^verbatim>\<open>toJSON\<close> runs foreign code only on the cause at the end of the
  chain of causes of its instance. When that cause is not foreign, or its
  properties and its \<^verbatim>\<open>toJSON\<close> change nothing when they are run, a call of \<^verbatim>\<open>toJSON\<close>
  leaves the world as it was; a second call has the same outcome, which for a call
  that returns is an equal structure; and the code, metadata, cause and stack of
  the instance read after the call as before.
\<close>

theorem toJSON_idempotent:
  "\<forall>a. last_cause ca = Foreign a \<or> last_cause ca = ForeignError a \<longrightarrow> quiet w a \<Longrightarrow>
     snd (toJSON_call w (Instance T c m ca st)) = w
     \<and> toJSON (snd (toJSON_call w (Instance T c m ca st))) (Instance T c m ca st)
         = toJSON w (Instance T c m ca st)
     \<and> (\<forall>k \<in> set [''code'', ''metadata'', ''cause'', ''stack''].
           get_prop (snd (toJSON_call w (Instance T c m ca st))) (Instance T c m ca st) k
             = get_prop w (Instance T c m ca st) k)"
proof (intro conjI ballI)
  assume q: "\<forall>a. last_cause ca = Foreign a \<or> last_cause ca = ForeignError a \<longrightarrow> quiet w a"
  then have "\<forall>a. last_cause (Instance T c m ca st) = Foreign a
                 \<or> last_cause (Instance T c m ca st) = ForeignError a \<longrightarrow> quiet w a" by simp
  then show s: "snd (toJSON_call w (Instance T c m ca st)) = w" by (rule toJSON_call_quiet)
  show "toJSON (snd (toJSON_call w (Instance T c m ca st))) (Instance T c m ca st)
            = toJSON w (Instance T c m ca st)"
    unfolding s ..
next
  fix k assume "k \<in> set [''code'', ''metadata'', ''cause'', ''stack'']"
  then show "get_prop (snd (toJSON_call w (Instance T c m ca st))) (Instance T c m ca st) k
        = get_prop w (Instance T c m ca st) k"
    by (rule get_prop_fields)
qed

theorem toJSON_idempotent_witness:
  "last_cause (Foreign 0) = Foreign 0
   \<and> snd (toJSON_call quiet_world (Instance MyError ''Unexpected'' Undefined (Foreign 0) ''at main''))
       = quiet_world
   \<and> toJSON (snd (toJSON_call quiet_world
                     (Instance MyError ''Unexpected'' Undefined (Foreign 0) ''at main'')))
        (Instance MyError ''Unexpected'' Undefined (Foreign 0) ''at main'')
       = toJSON quiet_world (Instance MyError ''Unexpected'' Undefined (Foreign 0) ''at main'')
   \<and> toJSON quiet_world (Instance MyError ''Unexpected'' Undefined (Foreign 0) ''at main'')
       = Inr (Props [(''name'', Val (Str ''MyError'')), (''code'', Val (Str ''Unexpected'')),
                     (''cause'', Val (Str ''foreign'')), (''stack'', Val (Str ''at main''))])
   \<and> get_prop (snd (toJSON_call quiet_world
                       (Instance MyError ''Unexpected'' Undefined (Foreign 0) ''at main'')))
        (Instance MyError ''Unexpected'' Undefined (Foreign 0) ''at main'') ''cause''
       = get_prop quiet_world (Instance MyError ''Unexpected'' Undefined (Foreign 0) ''at main'') ''cause''"
proof -
  let ?i = "Instance MyError ''Unexpected'' Undefined (Foreign 0) ''at main''"
  have q: "\<forall>a. last_cause (Foreign 0) = Foreign a \<or> last_cause (Foreign 0) = ForeignError a
         \<longrightarrow> quiet quiet_world a"
    by (intro allI impI) (rule quiet_quiet_world)
  note t = toJSON_idempotent [OF q, of MyError "''Unexpected''" Undefined "''at main''"]
  from t have s: "snd (toJSON_call quiet_world ?i) = quiet_world" by (rule conjunct1)
  from t have e: "toJSON (snd (toJSON_call quiet_world ?i)) ?i = toJSON quiet_world ?i"
    by (rule conjunct1[OF conjunct2])
  from t have t1: "\<forall>k \<in> set [''code'', ''metadata'', ''cause'', ''stack''].
      get_prop (snd (toJSON_call quiet_world ?i)) ?i k = get_prop quiet_world ?i k"
    by (rule conjunct2[OF conjunct2])
  have kc: "''cause'' \<in> set [''code'', ''metadata'', ''cause'', ''stack'']" by simp
  from bspec[OF t1 kc] have g: "get_prop (snd (toJSON_call quiet_world ?i)) ?i ''cause''
       = get_prop quiet_world ?i ''cause''" .
  have r: "toJSON quiet_world ?i
       = Inr (Props [(''name'', Val (Str ''MyError'')), (''code'', Val (Str ''Unexpected'')),
                     (''cause'', Val (Str ''foreign'')), (''stack'', Val (Str ''at main''))])"
    by (simp add: toJSON_def MyError_def run_def call_foreign_def)
  have l: "last_cause (Foreign 0) = Foreign 0" by simp
  show ?thesis by (intro conjI) (fact l s e r g)+
qed

end
